theory Spec2Isabelle
  imports Main "HOL-Library.Log_Nat"
begin

section \<open>Text\<close>

text \<open>
  Python text is modelled by \<open>string\<close>, a list of 8-bit characters read as code points
  0..255. On that range \<open>py_lower\<close> and \<open>py_strip\<close> follow \<open>str.lower\<close> and
  \<open>str.strip\<close>: the cased letters are A-Z and the Latin-1 capitals 0xC0..0xDE without
  the multiplication sign 0xD7, and the white space is what \<open>str.isspace\<close> accepts below
  256.
\<close>

definition py_lower_char :: "char \<Rightarrow> char" where
  "py_lower_char c =
     (let n = (of_char c :: nat)
      in if (65 \<le> n \<and> n \<le> 90) \<or> (192 \<le> n \<and> n \<le> 222 \<and> n \<noteq> 215)
         then char_of (n + 32) else c)"

definition py_lower :: "string \<Rightarrow> string" where
  "py_lower s = map py_lower_char s"

definition py_isspace :: "char \<Rightarrow> bool" where
  "py_isspace c =
     (let n = (of_char c :: nat)
      in (9 \<le> n \<and> n \<le> 13) \<or> (28 \<le> n \<and> n \<le> 32) \<or> n = 133 \<or> n = 160)"

definition py_strip :: "string \<Rightarrow> string" where
  "py_strip s = rev (dropWhile py_isspace (rev (dropWhile py_isspace s)))"

text \<open>\<open>p in t\<close> on strings: \<open>p\<close> occurs in \<open>t\<close> as a contiguous run.\<close>

fun starts_with :: "string \<Rightarrow> string \<Rightarrow> bool" where
  "starts_with [] t = True"
| "starts_with (c # p) [] = False"
| "starts_with (c # p) (d # t) = (c = d \<and> starts_with p t)"

fun py_in :: "string \<Rightarrow> string \<Rightarrow> bool" where
  "py_in p [] = (p = [])"
| "py_in p (d # t) = (starts_with p (d # t) \<or> py_in p t)"

text \<open>\<open>any(phrase in text for phrase in phrases)\<close>\<close>

definition any_phrase_in :: "string list \<Rightarrow> string \<Rightarrow> bool" where
  "any_phrase_in phrases t = list_ex (\<lambda>phrase. py_in phrase t) phrases"

text \<open>
  \<open>str.title\<close> as used on field names: a cased character is upper-cased when the
  character before it is not cased and lower-cased otherwise. The three Latin-1 letters
  whose capital lies outside this range (0xB5, 0xDF, 0xFF) are left as they are at the
  start of a word.
\<close>

definition py_upper_char :: "char \<Rightarrow> char" where
  "py_upper_char c =
     (let n = (of_char c :: nat)
      in if (97 \<le> n \<and> n \<le> 122) \<or> (224 \<le> n \<and> n \<le> 254 \<and> n \<noteq> 247)
         then char_of (n - 32) else c)"

definition py_is_cased :: "char \<Rightarrow> bool" where
  "py_is_cased c =
     (let n = (of_char c :: nat)
      in (65 \<le> n \<and> n \<le> 90) \<or> (97 \<le> n \<and> n \<le> 122) \<or> n = 170 \<or> n = 181 \<or> n = 186
         \<or> (192 \<le> n \<and> n \<noteq> 215 \<and> n \<noteq> 247))"

fun title_from :: "bool \<Rightarrow> string \<Rightarrow> string" where
  "title_from previous_is_cased [] = []"
| "title_from previous_is_cased (c # cs) =
     (if previous_is_cased then py_lower_char c else py_upper_char c)
       # title_from (py_is_cased c) cs"

definition py_title :: "string \<Rightarrow> string" where
  "py_title s = title_from False s"

text \<open>\<open>s.replace('_', ' ')\<close>\<close>

definition replace_underscores :: "string \<Rightarrow> string" where
  "replace_underscores s = map (\<lambda>c. if c = CHR ''_'' then CHR '' '' else c) s"

section \<open>Values decoded from JSON\<close>

text \<open>
  What \<open>json.loads\<close> returns and what a JSON column holds. \<open>JNull\<close> is Python's
  \<open>None\<close>; an object keeps its keys in insertion order. A float is carried as the
  rational it denotes (no NaN, no infinities).
\<close>

datatype json =
    JNull
  | JBool bool
  | JInt int
  | JFloat rat
  | JStr string
  | JArr "json list"
  | JObj "(string \<times> json) list"

text \<open>Python's truth value of a decoded value, as tested by \<open>if value:\<close>.\<close>

fun truthy :: "json \<Rightarrow> bool" where
  "truthy JNull = False"
| "truthy (JBool b) = b"
| "truthy (JInt n) = (n \<noteq> 0)"
| "truthy (JFloat q) = (q \<noteq> 0)"
| "truthy (JStr s) = (s \<noteq> [])"
| "truthy (JArr xs) = (xs \<noteq> [])"
| "truthy (JObj kvs) = (kvs \<noteq> [])"

text \<open>\<open>d.get(k)\<close> and \<open>d.get(k, default)\<close> on a dict; a missing key gives \<open>None\<close>.\<close>

definition dict_get :: "(string \<times> json) list \<Rightarrow> string \<Rightarrow> json" where
  "dict_get d k = (case map_of d k of None \<Rightarrow> JNull | Some v \<Rightarrow> v)"

definition dict_get_default :: "(string \<times> json) list \<Rightarrow> string \<Rightarrow> json \<Rightarrow> json" where
  "dict_get_default d k dflt = (case map_of d k of None \<Rightarrow> dflt | Some v \<Rightarrow> v)"

section \<open>Schemas\<close>

text \<open>A field of a questions schema: \<open>{"prompt": ..., "type": ...}\<close>.\<close>

record field_info =
  prompt :: string
  ftype :: string

type_synonym schema = "(string \<times> field_info) list"

section \<open>Errors\<close>

text \<open>
  What a handler can raise: the HTTP 404 of a missing session or template, the
  AttributeError of a method called on a value of the wrong type (\<open>.items()\<close> or
  \<open>.get()\<close> on something that is not a dict, an attribute read on \<open>None\<close>), and the
  validation error of a response model.
\<close>

datatype error = NotFound string | AttributeError | ValidationError

section \<open>The language-model service\<close>

text \<open>
  A conversation turn, \<open>{"sender": ..., "text": ...}\<close>; the key \<open>text\<close> is the
  field \<open>turn_text\<close>.
\<close>

record turn =
  sender :: string
  turn_text :: string

text \<open>
  Each service method builds a prompt from its arguments, posts it, and decodes the
  reply inside one \<open>try\<close> block. The backend is the outcome of that block as a function
  of the method's arguments: \<open>None\<close> when anything in it raised (transport, status,
  shape of the reply, JSON decoding), else the decoded content. For the question
  generator the content is the reply text before \<open>strip()\<close>.
\<close>

record backend =
  extract_reply :: "turn list \<Rightarrow> schema \<Rightarrow> json option"
  judge_reply :: "json \<Rightarrow> schema \<Rightarrow> json option"
  question_reply :: "turn list \<Rightarrow> schema \<Rightarrow> json \<Rightarrow> json \<Rightarrow> json \<Rightarrow> string option"

text \<open>\<open>extract_data_from_conversation\<close>, lines 55-98: the decoded reply, or \<open>{}\<close>.\<close>

definition extract_data_from_conversation :: "backend \<Rightarrow> turn list \<Rightarrow> schema \<Rightarrow> json" where
  "extract_data_from_conversation be conversation questions_schema =
     (case extract_reply be conversation questions_schema of
        Some content \<Rightarrow> content
      | None \<Rightarrow> JObj [])"

text \<open>\<open>d[k] = v\<close> on a dict: an existing key keeps its place.\<close>

fun dict_set :: "(string \<times> json) list \<Rightarrow> string \<Rightarrow> json \<Rightarrow> (string \<times> json) list" where
  "dict_set [] k v = [(k, v)]"
| "dict_set ((k', v') # d) k v = (if k' = k then (k, v) # d else (k', v') # dict_set d k v)"

text \<open>
  The fallback scoring loop, lines 159-161:
  \<open>field_scores[field_name] = 5 if extracted_data.get(field_name) else 0\<close>
  over the keys of the schema.
\<close>

definition fallback_scores :: "(string \<times> json) list \<Rightarrow> schema \<Rightarrow> (string \<times> json) list" where
  "fallback_scores extracted questions_schema =
     fold (\<lambda>field_name scores.
             dict_set scores field_name (JInt (if truthy (dict_get extracted field_name) then 5 else 0)))
          (map fst questions_schema) []"

definition judge_fallback :: "(string \<times> json) list \<Rightarrow> schema \<Rightarrow> json \<times> json \<times> json" where
  "judge_fallback extracted questions_schema =
     (JObj (fallback_scores extracted questions_schema), JBool False,
      JStr ''Unable to evaluate completeness. Please continue the conversation.'')"

text \<open>
  \<open>judge_completeness\<close>, lines 100-162. \<open>extracted_data.items()\<close> is called before the
  \<open>try\<close>, so a value that is not a dict raises out of the method. Inside the \<open>try\<close>,
  \<open>judgment.get\<close> on a reply that is not a dict raises and is caught like any other
  failure of the backend.
\<close>

definition judge_completeness :: "backend \<Rightarrow> json \<Rightarrow> schema \<Rightarrow> error + json \<times> json \<times> json" where
  "judge_completeness be extracted_data questions_schema =
     (case extracted_data of
        JObj extracted \<Rightarrow>
          (case judge_reply be extracted_data questions_schema of
             Some (JObj judgment) \<Rightarrow>
               Inr (dict_get_default judgment ''field_scores'' (JObj []),
                    dict_get_default judgment ''overall_complete'' (JBool False),
                    dict_get_default judgment ''suggestions'' (JStr []))
           | _ \<Rightarrow> Inr (judge_fallback extracted questions_schema))
      | _ \<Rightarrow> Inl AttributeError)"

text \<open>The backend failed for the judge: the \<open>try\<close> block did not reach its \<open>return\<close>.\<close>

definition judge_backend_failed :: "backend \<Rightarrow> json \<Rightarrow> schema \<Rightarrow> bool" where
  "judge_backend_failed be extracted_data questions_schema =
     (case judge_reply be extracted_data questions_schema of
        Some (JObj judgment) \<Rightarrow> False
      | _ \<Rightarrow> True)"

text \<open>
  \<open>generate_next_question\<close>, lines 164-211. \<open>field_scores.get(field_name, 0)\<close> runs
  once per schema field before the \<open>try\<close>.
\<close>

definition generate_next_question ::
  "backend \<Rightarrow> turn list \<Rightarrow> schema \<Rightarrow> json \<Rightarrow> json \<Rightarrow> json \<Rightarrow> error + string" where
  "generate_next_question be conversation questions_schema extracted_data scores suggestions =
     (if questions_schema \<noteq> [] \<and> (case scores of JObj d \<Rightarrow> False | _ \<Rightarrow> True)
      then Inl AttributeError
      else Inr (case question_reply be conversation questions_schema extracted_data scores suggestions of
                  Some content \<Rightarrow> py_strip content
                | None \<Rightarrow> ''Could you tell me more about your experience?''))"

subsection \<open>Response evaluation without the backend\<close>

text \<open>
  \<open>_fallback_evaluation(answer, field_type)\<close>, lines 278-284 of llm_service.py. The
  second component is the feedback; \<open>None\<close> is Python's \<open>None\<close>.
\<close>

definition fallback_evaluation :: "string \<Rightarrow> string \<Rightarrow> bool \<times> string option" where
  "fallback_evaluation answer field_type =
     (if field_type = ''yes/no''
      then (py_lower answer \<in> set [''yes'', ''no''], Some ''Please answer with 'yes' or 'no'.'')
      else if length (py_strip answer) < 10
      then (False, Some ''Please provide a more detailed response.'')
      else (True, None))"

section \<open>Sessions and the chat handler\<close>

text \<open>
  An \<open>InterviewSession\<close> row (models.py, lines 21-34). A nullable JSON column is an
  option. \<open>extracted_data\<close> and \<open>session_data\<close> only ever receive dicts; \<open>field_scores\<close>
  receives whatever the judge returned.
\<close>

record session =
  template_id :: nat
  session_data :: "(string \<times> json) list option"
  conversation_history :: "turn list option"
  current_question_index :: int
  is_completed :: bool
  awaiting_confirmation :: bool
  extracted_data :: "(string \<times> json) list option"
  field_scores :: json

text \<open>
  \<open>ChatResponse\<close> (models.py, lines 80-86); the fields that share a name with a column
  of the session carry the prefix \<open>resp\<close>.
\<close>

record chat_response =
  response :: string
  is_complete :: bool
  resp_awaiting_confirmation :: bool
  resp_extracted_data :: "(string \<times> json) list option"
  resp_field_scores :: "(string \<times> json) list option"
  resp_session_data :: "(string \<times> json) list option"

text \<open>The calls a handler makes to the service, in order, with their arguments.\<close>

datatype call =
    ExtractCall "turn list" schema
  | JudgeCall json schema
  | GenerateCall "turn list" schema json json json

text \<open>
  One run of the handler: what it returns or raises, the session as stored afterwards
  (unchanged when the handler raised before \<open>db.commit()\<close> or returned without one),
  and the service calls it made.
\<close>

record step =
  outcome :: "error + chat_response"
  session_after :: session
  calls :: "call list"

definition confirm_phrases :: "string list" where
  "confirm_phrases = [''yes'', ''correct'', ''looks good'', ''that's right'', ''confirm'', ''approve'']"

definition reject_phrases :: "string list" where
  "reject_phrases = [''no'', ''incorrect'', ''wrong'', ''not right'', ''reject'', ''change'']"

definition ready_phrases :: "string list" where
  "ready_phrases =
     [''ready'', ''ok'', ''yes'', ''start'', ''lets start'', ''let's start'', ''ok. lets start'', ''begin'']"

definition completed_msg :: string where
  "completed_msg = ''This interview has already been completed.''"

definition confirmation_msg :: string where
  "confirmation_msg = ''Perfect! Thank you for confirming. Your interview is now complete.''"

definition continue_msg :: string where
  "continue_msg =
     ''I understand. Let's continue our conversation to gather more accurate information. What would you like to clarify or add?''"

definition ready_welcome_msg :: string where
  "ready_welcome_msg =
     ''Great! I'll be conducting this interview with you. Let's have a natural conversation, and I'll gather the information we need. Tell me, what brings you here today?''"

definition welcome_msg :: string where
  "welcome_msg =
     ''Hello! Welcome to your interview session. I will ask you questions through a natural conversation. Let me know when you're ready to begin!''"

text \<open>
  The summary of lines 145-149. The bullet U+2022 that opens a line lies outside the
  8-bit range and is written as the three bytes of its UTF-8 encoding. \<open>str_of\<close> is
  Python's \<open>str\<close> on a decoded value, as the f-string applies it.
\<close>

definition summary_header :: string where
  "summary_header =
     ''Thank you for sharing all that information! Let me summarize what I've gathered:'' @ [CHR 0x0A, CHR 0x0A]"

definition summary_footer :: string where
  "summary_footer =
     [CHR 0x0A] @ ''Does this look accurate? Please confirm if this is correct, or let me know what needs to be changed.''"

definition summary_line :: "(json \<Rightarrow> string) \<Rightarrow> string \<Rightarrow> json \<Rightarrow> string" where
  "summary_line str_of field_name v =
     [CHR 0xE2, CHR 0x80, CHR 0xA2] @ '' **'' @ py_title (replace_underscores field_name) @ ''**: ''
       @ str_of v @ [CHR 0x0A]"

definition summary_msg :: "(json \<Rightarrow> string) \<Rightarrow> (string \<times> json) list \<Rightarrow> string" where
  "summary_msg str_of extracted =
     foldl (\<lambda>msg (field_name, v). if truthy v then msg @ summary_line str_of field_name v else msg)
           summary_header extracted
       @ summary_footer"

text \<open>
  Building a \<open>ChatResponse\<close> validates \<open>field_scores: Optional[Dict[str, Any]]\<close>: \<open>None\<close>
  and dicts pass.
\<close>

definition validate_dict :: "json \<Rightarrow> error + (string \<times> json) list option" where
  "validate_dict v = (case v of JNull \<Rightarrow> Inr None | JObj d \<Rightarrow> Inr (Some d) | _ \<Rightarrow> Inl ValidationError)"

definition user_turn :: "string \<Rightarrow> turn" where
  "user_turn message = \<lparr>sender = ''user'', turn_text = message\<rparr>"

definition assistant_turn :: "string \<Rightarrow> turn" where
  "assistant_turn message = \<lparr>sender = ''assistant'', turn_text = message\<rparr>"

text \<open>
  Lines 128-186 of interview.py: the extraction path. \<open>s\<close> is the session as loaded,
  \<open>history\<close> the conversation with the user's message appended.
\<close>

definition extraction_path ::
  "(json \<Rightarrow> string) \<Rightarrow> backend \<Rightarrow> schema \<Rightarrow> session \<Rightarrow> turn list \<Rightarrow> step" where
  "extraction_path str_of be questions_schema s history =
     (let extracted_data = extract_data_from_conversation be (butlast history) questions_schema;
          made = [ExtractCall (butlast history) questions_schema, JudgeCall extracted_data questions_schema]
      in case judge_completeness be extracted_data questions_schema of
           Inl e \<Rightarrow> \<lparr>outcome = Inl e, session_after = s, calls = made\<rparr>
         | Inr (scores, overall_complete, suggestions) \<Rightarrow>
             (case extracted_data of
                JObj extracted \<Rightarrow>
                  (if truthy overall_complete
                   then
                     (let msg = summary_msg str_of extracted;
                          s' = s\<lparr>extracted_data := Some extracted, field_scores := scores,
                                 awaiting_confirmation := True,
                                 conversation_history := Some (history @ [assistant_turn msg])\<rparr>
                      in \<lparr>outcome =
                            (case validate_dict scores of
                               Inl e \<Rightarrow> Inl e
                             | Inr validated \<Rightarrow>
                                 Inr \<lparr>response = msg, is_complete = False,
                                      resp_awaiting_confirmation = True,
                                      resp_extracted_data = Some extracted,
                                      resp_field_scores = validated,
                                      resp_session_data = None\<rparr>),
                          session_after = s', calls = made\<rparr>)
                   else
                     (let made' = made @ [GenerateCall history questions_schema extracted_data scores suggestions]
                      in case generate_next_question be history questions_schema extracted_data scores suggestions of
                           Inl e \<Rightarrow> \<lparr>outcome = Inl e, session_after = s, calls = made'\<rparr>
                         | Inr next_question \<Rightarrow>
                             (let s' = s\<lparr>extracted_data := Some extracted, field_scores := scores,
                                         conversation_history := Some (history @ [assistant_turn next_question])\<rparr>
                              in \<lparr>outcome =
                                    (case validate_dict scores of
                                       Inl e \<Rightarrow> Inl e
                                     | Inr validated \<Rightarrow>
                                         Inr \<lparr>response = next_question, is_complete = False,
                                              resp_awaiting_confirmation = False,
                                              resp_extracted_data = Some extracted,
                                              resp_field_scores = validated,
                                              resp_session_data = None\<rparr>),
                                  session_after = s', calls = made'\<rparr>)))
              | _ \<Rightarrow> \<lparr>outcome = Inl AttributeError, session_after = s, calls = made\<rparr>))"

text \<open>Lines 67-68: a session whose history is \<open>None\<close> gets the empty list.\<close>

definition history_of :: "session \<Rightarrow> turn list" where
  "history_of s = (case conversation_history s of None \<Rightarrow> [] | Some h \<Rightarrow> h)"

text \<open>
  \<open>chat_with_session\<close>, lines 56-186, for a session and a template that exist;
  \<open>questions_schema\<close> is the template's schema and \<open>message\<close> the text of the request.
\<close>

definition chat_with_session ::
  "(json \<Rightarrow> string) \<Rightarrow> backend \<Rightarrow> schema \<Rightarrow> session \<Rightarrow> string \<Rightarrow> step" where
  "chat_with_session str_of be questions_schema s message =
     (if is_completed s
      then \<lparr>outcome = Inr \<lparr>response = completed_msg, is_complete = True,
                           resp_awaiting_confirmation = False, resp_extracted_data = None,
                           resp_field_scores = None, resp_session_data = session_data s\<rparr>,
            session_after = s, calls = []\<rparr>
      else
        (let history = history_of s @ [user_turn message];
             said = py_strip (py_lower message)
         in if awaiting_confirmation s \<and> any_phrase_in confirm_phrases said
            then
              (let data = (case extracted_data s of
                             None \<Rightarrow> []
                           | Some extracted \<Rightarrow> if extracted \<noteq> [] then extracted else [])
               in \<lparr>outcome = Inr \<lparr>response = confirmation_msg, is_complete = True,
                                   resp_awaiting_confirmation = False, resp_extracted_data = None,
                                   resp_field_scores = None, resp_session_data = Some data\<rparr>,
                    session_after = s\<lparr>is_completed := True, session_data := Some data,
                                      conversation_history := Some (history @ [assistant_turn confirmation_msg])\<rparr>,
                    calls = []\<rparr>)
            else if awaiting_confirmation s \<and> any_phrase_in reject_phrases said
            then
              \<lparr>outcome = Inr \<lparr>response = continue_msg, is_complete = False,
                               resp_awaiting_confirmation = False, resp_extracted_data = None,
                               resp_field_scores = None, resp_session_data = None\<rparr>,
                session_after = s\<lparr>awaiting_confirmation := False,
                                  conversation_history := Some (history @ [assistant_turn continue_msg])\<rparr>,
                calls = []\<rparr>
            else if length history = 1
            then
              (let msg = (if any_phrase_in ready_phrases said then ready_welcome_msg else welcome_msg)
               in \<lparr>outcome = Inr \<lparr>response = msg, is_complete = False,
                                   resp_awaiting_confirmation = False, resp_extracted_data = None,
                                   resp_field_scores = None, resp_session_data = None\<rparr>,
                    session_after = s\<lparr>conversation_history := Some (history @ [assistant_turn msg])\<rparr>,
                    calls = []\<rparr>)
            else extraction_path str_of be questions_schema s history))"

text \<open>
  The session \<open>start_interview\<close> builds (lines 27-35), with the column default
  \<open>is_completed = False\<close>.
\<close>

definition new_session :: "nat \<Rightarrow> session" where
  "new_session tid =
     \<lparr>template_id = tid, session_data = Some [], conversation_history = Some [],
      current_question_index = 0, is_completed = False, awaiting_confirmation = False,
      extracted_data = Some [], field_scores = JObj []\<rparr>"

text \<open>The sessions a started interview can be in after any number of chat requests.\<close>

inductive reachable :: "schema \<Rightarrow> session \<Rightarrow> bool" for questions_schema :: schema where
  started: "reachable questions_schema (new_session tid)"
| chatted: "reachable questions_schema s \<Longrightarrow>
            reachable questions_schema (session_after (chat_with_session str_of be questions_schema s message))"

section \<open>Starting a session and reading its status\<close>

text \<open>An \<open>InterviewTemplate\<close> row; the schema column is nullable.\<close>

record template =
  name :: string
  questions_schema :: "schema option"
  is_active :: bool

text \<open>The two tables, and the id the next inserted session receives.\<close>

record db =
  templates :: "nat \<rightharpoonup> template"
  sessions :: "nat \<rightharpoonup> session"
  next_session_id :: nat

text \<open>\<open>start_interview\<close>, lines 18-41: the id of the new row, the row, and the database.\<close>

definition start_interview :: "db \<Rightarrow> nat \<Rightarrow> error + nat \<times> session \<times> db" where
  "start_interview d tid =
     (case templates d tid of
        None \<Rightarrow> Inl (NotFound ''Template not found'')
      | Some t \<Rightarrow>
          if is_active t
          then (let sid = next_session_id d; s = new_session tid
                in Inr (sid, s, d\<lparr>sessions := (sessions d)(sid \<mapsto> s), next_session_id := Suc sid\<rparr>))
          else Inl (NotFound ''Template not found''))"

text \<open>
  Arithmetic of \<open>round((i / n) * 100)\<close>. A double is carried as the rational it denotes.
  \<open>to_double\<close> rounds a rational to the nearest number with a 53-bit significand, ties
  to even; the exponent is not bounded, which a quotient of a database integer by the
  length of a schema never notices. \<open>i / n\<close> on integers and \<open>x * 100\<close> on a double are
  each the exact result rounded once, and \<open>round\<close> takes a double to the nearest
  integer, ties to even.
\<close>

definition round_half_even :: "rat \<Rightarrow> int" where
  "round_half_even q =
     (let f = \<lfloor>q\<rfloor>; r = q - of_int f
      in if r < 1 / 2 then f else if 1 / 2 < r then f + 1 else if even f then f else f + 1)"

definition binary_exponent :: "rat \<Rightarrow> int" where
  "binary_exponent q =
     (let (n, d) = quotient_of \<bar>q\<bar>; k = bitlen n - bitlen d
      in if 2 powi k \<le> \<bar>q\<bar> then k else k - 1)"

definition to_double :: "rat \<Rightarrow> rat" where
  "to_double q =
     (if q = 0 then 0
      else (let ulp = 2 powi (binary_exponent q - 52)
            in of_int (round_half_even (q / ulp)) * ulp))"

definition py_truediv :: "int \<Rightarrow> int \<Rightarrow> rat" where
  "py_truediv i n = to_double (of_int i / of_int n)"

definition float_mul :: "rat \<Rightarrow> rat \<Rightarrow> rat" where
  "float_mul x y = to_double (x * y)"

definition py_round :: "rat \<Rightarrow> int" where
  "py_round x = round_half_even x"

text \<open>The dict \<open>get_session_status\<close> returns.\<close>

record status =
  status_session_id :: nat
  current_question :: int
  total_questions :: nat
  status_is_completed :: bool
  progress_percentage :: int

text \<open>
  \<open>get_session_status\<close>, lines 189-204. A session whose template is gone raises on
  \<open>template.questions_schema\<close>.
\<close>

definition get_session_status :: "db \<Rightarrow> nat \<Rightarrow> error + status" where
  "get_session_status d sid =
     (case sessions d sid of
        None \<Rightarrow> Inl (NotFound ''Session not found'')
      | Some s \<Rightarrow>
          (case templates d (template_id s) of
             None \<Rightarrow> Inl AttributeError
           | Some t \<Rightarrow>
               (let n = (case questions_schema t of
                           None \<Rightarrow> 0
                         | Some sch \<Rightarrow> if sch \<noteq> [] then length sch else 0)
                in Inr \<lparr>status_session_id = sid,
                        current_question = current_question_index s + 1,
                        total_questions = n,
                        status_is_completed = is_completed s,
                        progress_percentage =
                          (if n > 0
                           then py_round (float_mul (py_truediv (current_question_index s) (int n)) 100)
                           else 0)\<rparr>)))"

text \<open>
  The formula the specification gives for the progress, read with Python's arithmetic:
  \<open>round(current_question_index / total_questions * 100)\<close> if \<open>total_questions > 0\<close>,
  else \<open>0\<close>.
\<close>

definition spec_progress :: "int \<Rightarrow> nat \<Rightarrow> int" where
  "spec_progress idx n =
     (if n > 0 then py_round (float_mul (py_truediv idx (int n)) 100) else 0)"

section \<open>A worked interview\<close>

text \<open>
  Several chat requests in a row, each with the backend that answers it; the session
  each request stores is the one the next request loads.
\<close>

fun chats :: "(json \<Rightarrow> string) \<Rightarrow> schema \<Rightarrow> session \<Rightarrow> (backend \<times> string) list \<Rightarrow> session" where
  "chats str_of sch s [] = s"
| "chats str_of sch s ((be, message) # requests) =
     chats str_of sch (session_after (chat_with_session str_of be sch s message)) requests"

text \<open>
  The scenario of the specification: a schema with the single field \<open>name\<close>, a backend
  whose extractor finds \<open>John Smith\<close> and whose judge reports completeness, and a
  backend that is down.
\<close>

definition demo_schema :: schema where
  "demo_schema = [(''name'', \<lparr>prompt = ''What is your name?'', ftype = ''string''\<rparr>)]"

definition demo_backend :: backend where
  "demo_backend =
     \<lparr>extract_reply = (\<lambda>conversation sch. Some (JObj [(''name'', JStr ''John Smith'')])),
      judge_reply = (\<lambda>extracted sch.
         Some (JObj [(''field_scores'', JObj [(''name'', JInt 9)]),
                     (''overall_complete'', JBool True),
                     (''suggestions'', JStr [])])),
      question_reply = (\<lambda>conversation sch extracted scores suggestions. None)\<rparr>"

definition down_backend :: backend where
  "down_backend =
     \<lparr>extract_reply = (\<lambda>conversation sch. None),
      judge_reply = (\<lambda>extracted sch. None),
      question_reply = (\<lambda>conversation sch extracted scores suggestions. None)\<rparr>"

definition demo_str_of :: "json \<Rightarrow> string" where
  "demo_str_of v = (case v of JStr s \<Rightarrow> s | _ \<Rightarrow> [])"

text \<open>The session after \<open>ready\<close>, after the answer, and after the confirming \<open>yes\<close>.\<close>

definition demo_ready :: session where
  "demo_ready = chats demo_str_of demo_schema (new_session 1) [(demo_backend, ''ready'')]"

definition demo_awaiting :: session where
  "demo_awaiting = chats demo_str_of demo_schema demo_ready [(demo_backend, ''My name is John Smith'')]"

definition demo_confirmed :: session where
  "demo_confirmed = chats demo_str_of demo_schema demo_awaiting [(demo_backend, ''yes'')]"

text \<open>A session row that was never chatted with but carries the confirmation flag.\<close>

definition flagged_empty :: session where
  "flagged_empty = (new_session 1)\<lparr>awaiting_confirmation := True\<rparr>"

text \<open>
  The specification's words for the fallback of the judge: a non-empty extracted value,
  as opposed to one that is null or missing. A value is non-empty when it is not null
  and is not an empty string, list or object; a boolean or a number is a value.
\<close>

fun spec_non_empty :: "json \<Rightarrow> bool" where
  "spec_non_empty JNull = False"
| "spec_non_empty (JStr s) = (s \<noteq> [])"
| "spec_non_empty (JArr xs) = (xs \<noteq> [])"
| "spec_non_empty (JObj kvs) = (kvs \<noteq> [])"
| "spec_non_empty (JBool b) = True"
| "spec_non_empty (JInt n) = True"
| "spec_non_empty (JFloat q) = True"

text \<open>
  A schema with a yes/no field and a numeric field, and an extraction that answers
  them with \<open>false\<close> and \<open>0\<close>.
\<close>

definition flags_schema :: schema where
  "flags_schema =
     [(''available'', \<lparr>prompt = ''Are you available?'', ftype = ''yes/no''\<rparr>),
      (''years'', \<lparr>prompt = ''How many years of experience?'', ftype = ''string''\<rparr>)]"

definition flags_extracted :: "(string \<times> json) list" where
  "flags_extracted = [(''available'', JBool False), (''years'', JInt 0)]"

text \<open>A database with the demo template and no session, and the same after one start.\<close>

definition demo_template :: template where
  "demo_template = \<lparr>name = ''Demo'', questions_schema = Some demo_schema, is_active = True\<rparr>"

definition demo_db :: db where
  "demo_db = \<lparr>templates = [1 \<mapsto> demo_template], sessions = Map.empty, next_session_id = 1\<rparr>"

definition demo_started :: db where
  "demo_started = demo_db\<lparr>sessions := [1 \<mapsto> new_session 1], next_session_id := 2\<rparr>"

section \<open>Text functions\<close>

lemma starts_with_iff: "starts_with p t \<longleftrightarrow> (\<exists>b. t = p @ b)"
  by (induction p t rule: starts_with.induct) auto

lemma py_in_iff: "py_in p t \<longleftrightarrow> (\<exists>a b. t = a @ p @ b)"
proof (induction t)
  case Nil
  then show ?case by auto
next
  case (Cons d t)
  show ?case
  proof
    assume "py_in p (d # t)"
    then consider "starts_with p (d # t)" | "py_in p t" by auto
    then show "\<exists>a b. d # t = a @ p @ b"
    proof cases
      case 1
      then obtain b where "d # t = p @ b" by (auto simp: starts_with_iff)
      then have "d # t = [] @ p @ b" by simp
      then show ?thesis by blast
    next
      case 2
      then obtain a b where "t = a @ p @ b" using Cons.IH by blast
      then have "d # t = (d # a) @ p @ b" by simp
      then show ?thesis by blast
    qed
  next
    assume "\<exists>a b. d # t = a @ p @ b"
    then obtain a b where ab: "d # t = a @ p @ b" by blast
    show "py_in p (d # t)"
    proof (cases a)
      case Nil
      then have "starts_with p (d # t)" using ab by (auto simp: starts_with_iff)
      then show ?thesis by simp
    next
      case (Cons x a')
      then have "t = a' @ p @ b" using ab by simp
      then have "py_in p t" using Cons.IH by blast
      then show ?thesis by simp
    qed
  qed
qed

lemma said_yes: "any_phrase_in confirm_phrases (py_strip (py_lower ''yes''))"
  by code_simp

lemma said_hmm:
  "\<not> any_phrase_in confirm_phrases (py_strip (py_lower ''hmm''))
   \<and> \<not> any_phrase_in reject_phrases (py_strip (py_lower ''hmm''))"
  by code_simp

section \<open>The worked interview, evaluated\<close>


lemma demo_awaiting_state:
  "\<not> is_completed demo_awaiting \<and> awaiting_confirmation demo_awaiting
   \<and> history_of demo_awaiting \<noteq> []
   \<and> extracted_data demo_awaiting = Some [(''name'', JStr ''John Smith'')]"
  by code_simp

lemma demo_confirmed_state:
  "is_completed demo_confirmed \<and> awaiting_confirmation demo_confirmed"
  by code_simp

lemma flagged_empty_state:
  "\<not> is_completed flagged_empty \<and> awaiting_confirmation flagged_empty
   \<and> history_of flagged_empty = []"
  by code_simp

lemma reachable_chats:
  "reachable sch s \<Longrightarrow> reachable sch (chats str_of sch s requests)"
proof (induction requests arbitrary: s)
  case Nil
  then show ?case by simp
next
  case (Cons r requests)
  obtain be message where r: "r = (be, message)" by (cases r)
  from Cons.prems have "reachable sch (session_after (chat_with_session str_of be sch s message))"
    by (rule reachable.chatted)
  then show ?case using Cons.IH r by simp
qed

lemma reachable_demo_confirmed: "reachable demo_schema demo_confirmed"
  unfolding demo_confirmed_def demo_awaiting_def demo_ready_def
  by (intro reachable_chats reachable.started)

section \<open>Branches of the chat handler\<close>

lemma completed_step:
  "is_completed s \<Longrightarrow>
   chat_with_session str_of be sch s message =
     \<lparr>outcome = Inr \<lparr>response = completed_msg, is_complete = True,
                       resp_awaiting_confirmation = False, resp_extracted_data = None,
                       resp_field_scores = None, resp_session_data = session_data s\<rparr>,
      session_after = s, calls = []\<rparr>"
  by (simp add: chat_with_session_def)

lemma completed_chats: "is_completed s \<Longrightarrow> chats str_of sch s requests = s"
  by (induction requests) (auto simp: completed_step)

lemma first_step:
  "\<not> is_completed s \<Longrightarrow> \<not> awaiting_confirmation s \<Longrightarrow> history_of s = [] \<Longrightarrow>
   chat_with_session str_of be sch s message =
     (let msg = (if any_phrase_in ready_phrases (py_strip (py_lower message))
                 then ready_welcome_msg else welcome_msg)
      in \<lparr>outcome = Inr \<lparr>response = msg, is_complete = False,
                          resp_awaiting_confirmation = False, resp_extracted_data = None,
                          resp_field_scores = None, resp_session_data = None\<rparr>,
           session_after = s\<lparr>conversation_history := Some [user_turn message, assistant_turn msg]\<rparr>,
           calls = []\<rparr>)"
  by (simp add: chat_with_session_def Let_def)

lemma default_step:
  "\<not> is_completed s \<Longrightarrow> history_of s \<noteq> [] \<Longrightarrow>
   \<not> (awaiting_confirmation s \<and> any_phrase_in confirm_phrases (py_strip (py_lower message))) \<Longrightarrow>
   \<not> (awaiting_confirmation s \<and> any_phrase_in reject_phrases (py_strip (py_lower message))) \<Longrightarrow>
   chat_with_session str_of be sch s message =
     extraction_path str_of be sch s (history_of s @ [user_turn message])"
  by (cases "history_of s") (auto simp: chat_with_session_def Let_def)

lemma extraction_path_calls:
  "\<exists>rest. calls (extraction_path str_of be sch s history) =
      ExtractCall (butlast history) sch
        # JudgeCall (extract_data_from_conversation be (butlast history) sch) sch # rest
    \<and> (rest = [] \<or> (\<exists>scores suggestions. rest =
          [GenerateCall history sch (extract_data_from_conversation be (butlast history) sch)
             scores suggestions]))"
  by (auto simp: extraction_path_def Let_def split: sum.splits json.splits prod.splits)

lemma extraction_path_awaiting:
  "awaiting_confirmation s \<Longrightarrow>
   awaiting_confirmation (session_after (extraction_path str_of be sch s history))"
  by (auto simp: extraction_path_def Let_def split: sum.splits json.splits prod.splits)

lemma reachable_awaiting_history:
  "reachable sch s \<Longrightarrow> awaiting_confirmation s \<Longrightarrow> history_of s \<noteq> []"
proof (induction rule: reachable.induct)
  case (started tid)
  then show ?case by (simp add: new_session_def)
next
  case (chatted s str_of be message)
  then show ?case
    by (auto simp: chat_with_session_def extraction_path_def history_of_def Let_def
             split: if_splits sum.splits json.splits prod.splits option.splits)
qed

section \<open>The fallback of the judge\<close>

lemma map_of_dict_set: "map_of (dict_set d k v) = (map_of d)(k \<mapsto> v)"
  by (induction d) (auto simp: fun_eq_iff)

lemma keys_dict_set: "fst ` set (dict_set d k v) = insert k (fst ` set d)"
  by (simp add: dom_map_of_conv_image_fst[symmetric] map_of_dict_set)

lemma map_of_fold_scores:
  "map_of (fold (\<lambda>f scores. dict_set scores f (g f)) ks acc) k =
     (if k \<in> set ks then Some (g k) else map_of acc k)"
  by (induction ks arbitrary: acc) (auto simp: map_of_dict_set)

lemma keys_fold_scores:
  "fst ` set (fold (\<lambda>f scores. dict_set scores f (g f)) ks acc) = set ks \<union> fst ` set acc"
  by (induction ks arbitrary: acc) (simp_all add: keys_dict_set)

lemma fallback_scores_get:
  "f \<in> fst ` set sch \<Longrightarrow>
   dict_get (fallback_scores extracted sch) f = JInt (if truthy (dict_get extracted f) then 5 else 0)"
  unfolding fallback_scores_def dict_get_def[of "fold _ _ _"]
  by (simp add: map_of_fold_scores)

lemma fallback_scores_keys:
  "fst ` set (fallback_scores extracted sch) = fst ` set sch"
  unfolding fallback_scores_def by (simp add: keys_fold_scores)

lemma judge_failed:
  "judge_backend_failed be (JObj extracted) sch \<Longrightarrow>
   judge_completeness be (JObj extracted) sch = Inr (judge_fallback extracted sch)"
  by (auto simp: judge_backend_failed_def judge_completeness_def split: option.splits json.splits)

section \<open>The fallback of the response evaluator\<close>

text \<open>
  For a kind other than yes/no the answer is sufficient exactly when its trimmed text
  has at least 10 characters, with no feedback when sufficient and the fixed request for
  detail otherwise; \<open>maybe\<close> is refused for the yes/no kind with the yes/no hint.
\<close>

lemma fallback_evaluation_other_kinds:
  "field_type \<noteq> ''yes/no'' \<Longrightarrow>
   fallback_evaluation answer field_type =
     (if 10 \<le> length (py_strip answer) then (True, None)
      else (False, Some ''Please provide a more detailed response.''))"
  by (simp add: fallback_evaluation_def)

lemma fallback_evaluation_yes_no_verdict:
  "fst (fallback_evaluation answer ''yes/no'') \<longleftrightarrow> py_lower answer = ''yes'' \<or> py_lower answer = ''no''"
  by (simp add: fallback_evaluation_def)

lemma fallback_evaluation_maybe:
  "fallback_evaluation ''maybe'' ''yes/no'' = (False, Some ''Please answer with 'yes' or 'no'.'')"
  by code_simp

section \<open>The summary and the progress\<close>


lemma to_double_0: "to_double 0 = 0"
  by (simp add: to_double_def)

lemma spec_progress_0: "spec_progress 0 n = 0"
  by (simp add: spec_progress_def py_truediv_def float_mul_def py_round_def to_double_0
                round_half_even_def)

text \<open>
  One of two answered is 50 per cent. For 23 of 40 the quotient 0.575 is not a double,
  the product falls just below 57.5, and the result is 57.
\<close>

lemma spec_progress_examples: "spec_progress 1 2 = 50 \<and> spec_progress 23 40 = 57"
  by code_simp

lemma status_progress:
  "sessions d sid = Some s \<Longrightarrow> templates d (template_id s) = Some t \<Longrightarrow>
   \<exists>st. get_session_status d sid = Inr st
      \<and> total_questions st = (case questions_schema t of None \<Rightarrow> 0 | Some sch \<Rightarrow> length sch)
      \<and> progress_percentage st = spec_progress (current_question_index s) (total_questions st)"
  by (auto simp: get_session_status_def spec_progress_def Let_def split: option.splits)

lemma start_then_status:
  assumes "start_interview d tid = Inr (sid, s, d')"
  shows "\<exists>st. get_session_status d' sid = Inr st \<and> progress_percentage st = 0"
proof -
  from assms obtain t where t: "templates d tid = Some t"
    and s: "s = new_session tid"
    and d': "d' = d\<lparr>sessions := (sessions d)(sid \<mapsto> s), next_session_id := Suc sid\<rparr>"
    by (auto simp: start_interview_def Let_def split: option.splits if_splits)
  have 1: "sessions d' sid = Some s" using d' by simp
  have 2: "templates d' (template_id s) = Some t" using d' s t by (simp add: new_session_def)
  from status_progress[OF 1 2] obtain st where
    "get_session_status d' sid = Inr st"
    "progress_percentage st = spec_progress (current_question_index s) (total_questions st)"
    by blast
  then show ?thesis using s by (simp add: new_session_def spec_progress_0)
qed

section \<open>The claims\<close>

text \<open>
  Claim C1: in every session reachable from a started one, \<open>awaiting_confirmation\<close>
  implies not \<open>is_completed\<close>; the confirm branch must leave the flag false. The code
  breaks this: the confirm branch sets \<open>is_completed\<close> and never touches
  \<open>awaiting_confirmation\<close>, which the reject branch next to it does reset. After
  \<open>ready\<close>, an answer the judge finds complete, and \<open>yes\<close>, the stored session has both
  flags set.
\<close>

theorem confirmed_session_still_awaiting:
  "reachable demo_schema demo_confirmed
   \<and> awaiting_confirmation demo_confirmed \<and> is_completed demo_confirmed"
  using reachable_demo_confirmed demo_confirmed_state by simp

text \<open>
  Claim C2, as stated, for every session with \<open>awaiting_confirmation\<close>: a confirming
  reply completes the interview and appends the acknowledgement. It fails on the session
  above, which awaits confirmation and is completed: the handler answers \<open>yes\<close> with the
  already-completed message and appends nothing.
\<close>

theorem confirm_reply_counterexample:
  "awaiting_confirmation demo_confirmed
   \<and> any_phrase_in confirm_phrases (py_strip (py_lower ''yes''))
   \<and> chat_with_session demo_str_of demo_backend demo_schema demo_confirmed ''yes'' =
       \<lparr>outcome = Inr \<lparr>response = completed_msg, is_complete = True,
                         resp_awaiting_confirmation = False, resp_extracted_data = None,
                         resp_field_scores = None,
                         resp_session_data = session_data demo_confirmed\<rparr>,
        session_after = demo_confirmed, calls = []\<rparr>
   \<and> completed_msg \<noteq> confirmation_msg"
  using demo_confirmed_state said_yes
  by (simp add: completed_step completed_msg_def confirmation_msg_def)

text \<open>
  Claim C2, amended: for every session that is not completed and has
  \<open>awaiting_confirmation\<close>, and every message whose lower-cased, trimmed text contains
  one of the confirm phrases, the handler sets \<open>is_completed\<close>, sets \<open>session_data\<close> to
  the current \<open>extracted_data\<close> (the empty dict if that is \<open>None\<close>), appends the user
  turn and then the fixed acknowledgement, calls no service, and returns the
  acknowledgement with \<open>is_complete\<close> true and the same data.
\<close>

theorem confirm_reply_completes:
  "\<not> is_completed s \<Longrightarrow> awaiting_confirmation s \<Longrightarrow>
   any_phrase_in confirm_phrases (py_strip (py_lower message)) \<Longrightarrow>
   chat_with_session str_of be sch s message =
     (let data = (case extracted_data s of None \<Rightarrow> [] | Some extracted \<Rightarrow> extracted)
      in \<lparr>outcome = Inr \<lparr>response = confirmation_msg, is_complete = True,
                          resp_awaiting_confirmation = False, resp_extracted_data = None,
                          resp_field_scores = None, resp_session_data = Some data\<rparr>,
           session_after = s\<lparr>is_completed := True, session_data := Some data,
                             conversation_history :=
                               Some (history_of s @ [user_turn message, assistant_turn confirmation_msg])\<rparr>,
           calls = []\<rparr>)"
  by (auto simp: chat_with_session_def Let_def split: option.splits)

theorem confirm_reply_completes_witness:
  "\<not> is_completed demo_awaiting \<and> awaiting_confirmation demo_awaiting
   \<and> any_phrase_in confirm_phrases (py_strip (py_lower ''yes''))
   \<and> is_completed (session_after (chat_with_session demo_str_of demo_backend demo_schema demo_awaiting ''yes''))
   \<and> session_data (session_after (chat_with_session demo_str_of demo_backend demo_schema demo_awaiting ''yes''))
       = Some [(''name'', JStr ''John Smith'')]
   \<and> outcome (chat_with_session demo_str_of demo_backend demo_schema demo_awaiting ''yes'')
       = Inr \<lparr>response = confirmation_msg, is_complete = True,
              resp_awaiting_confirmation = False, resp_extracted_data = None,
              resp_field_scores = None,
              resp_session_data = Some [(''name'', JStr ''John Smith'')]\<rparr>"
proof -
  have a: "\<not> is_completed demo_awaiting" and b: "awaiting_confirmation demo_awaiting"
    and e: "extracted_data demo_awaiting = Some [(''name'', JStr ''John Smith'')]"
    using demo_awaiting_state by simp_all
  show ?thesis
    using confirm_reply_completes [OF a b said_yes, of demo_str_of demo_backend demo_schema] a b e said_yes
    by (simp add: Let_def)
qed

text \<open>
  Claim C3, as stated, for every session with \<open>awaiting_confirmation\<close>: a reply in
  neither vocabulary reaches the extraction path. It fails on the completed session
  above, where the handler returns at once, and on a session that carries the flag with
  an empty history, where the handler takes the first-interaction branch; neither calls
  the service.
\<close>

theorem ambiguous_reply_counterexample:
  "\<not> any_phrase_in confirm_phrases (py_strip (py_lower ''hmm''))
   \<and> \<not> any_phrase_in reject_phrases (py_strip (py_lower ''hmm''))
   \<and> awaiting_confirmation demo_confirmed
   \<and> calls (chat_with_session demo_str_of demo_backend demo_schema demo_confirmed ''hmm'') = []
   \<and> awaiting_confirmation flagged_empty
   \<and> calls (chat_with_session demo_str_of demo_backend demo_schema flagged_empty ''hmm'') = []"
  using demo_confirmed_state said_hmm flagged_empty_state
  by (simp add: completed_step chat_with_session_def Let_def)

text \<open>
  Claim C3, amended: for every session that is not completed, has
  \<open>awaiting_confirmation\<close> and holds at least one turn (as every reachable session with
  the flag does, \<open>reachable_awaiting_history\<close>), and every message matching neither
  the confirm nor the reject vocabulary, the handler does not return in the confirmation
  branch: it calls the extractor on the earlier turns and then the judge, and the stored
  session still has \<open>awaiting_confirmation\<close>.
\<close>

theorem ambiguous_reply_reaches_extraction:
  "\<not> is_completed s \<Longrightarrow> awaiting_confirmation s \<Longrightarrow> history_of s \<noteq> [] \<Longrightarrow>
   \<not> any_phrase_in confirm_phrases (py_strip (py_lower message)) \<Longrightarrow>
   \<not> any_phrase_in reject_phrases (py_strip (py_lower message)) \<Longrightarrow>
   (\<exists>rest. calls (chat_with_session str_of be sch s message) =
        ExtractCall (history_of s) sch
          # JudgeCall (extract_data_from_conversation be (history_of s) sch) sch # rest)
   \<and> awaiting_confirmation (session_after (chat_with_session str_of be sch s message))"
proof -
  assume a: "\<not> is_completed s" and b: "awaiting_confirmation s" and h: "history_of s \<noteq> []"
    and c: "\<not> any_phrase_in confirm_phrases (py_strip (py_lower message))"
    and r: "\<not> any_phrase_in reject_phrases (py_strip (py_lower message))"
  have step: "chat_with_session str_of be sch s message =
      extraction_path str_of be sch s (history_of s @ [user_turn message])"
    using a h c r by (simp add: default_step)
  from extraction_path_calls [of str_of be sch s "history_of s @ [user_turn message]"]
  have "\<exists>rest. calls (extraction_path str_of be sch s (history_of s @ [user_turn message])) =
        ExtractCall (history_of s) sch
          # JudgeCall (extract_data_from_conversation be (history_of s) sch) sch # rest"
    by auto
  then show ?thesis using step b by (simp add: extraction_path_awaiting)
qed

theorem ambiguous_reply_reaches_extraction_witness:
  "\<not> is_completed demo_awaiting \<and> awaiting_confirmation demo_awaiting
   \<and> history_of demo_awaiting \<noteq> []
   \<and> \<not> any_phrase_in confirm_phrases (py_strip (py_lower ''hmm''))
   \<and> \<not> any_phrase_in reject_phrases (py_strip (py_lower ''hmm''))
   \<and> (\<exists>rest. calls (chat_with_session demo_str_of demo_backend demo_schema demo_awaiting ''hmm'') =
         ExtractCall (history_of demo_awaiting) demo_schema
           # JudgeCall (extract_data_from_conversation demo_backend (history_of demo_awaiting) demo_schema)
               demo_schema # rest)
   \<and> awaiting_confirmation
       (session_after (chat_with_session demo_str_of demo_backend demo_schema demo_awaiting ''hmm''))"
proof -
  have a: "\<not> is_completed demo_awaiting" and b: "awaiting_confirmation demo_awaiting"
    and h: "history_of demo_awaiting \<noteq> []"
    using demo_awaiting_state by simp_all
  have c: "\<not> any_phrase_in confirm_phrases (py_strip (py_lower ''hmm''))"
    and r: "\<not> any_phrase_in reject_phrases (py_strip (py_lower ''hmm''))"
    using said_hmm by simp_all
  show ?thesis
    using ambiguous_reply_reaches_extraction [OF a b h c r, of demo_str_of demo_backend demo_schema]
      a b h c r
    by simp
qed



text \<open>
  Claim C5, as stated: when the backend fails for the judge, every schema field whose
  extracted value is non-empty scores 5 and only a field that is null or missing scores
  0. It fails where the extraction holds \<open>false\<close> or \<open>0\<close>: both values are present and
  non-empty, and the fallback scores both fields 0, since line 161 tests the truth value
  of \<open>extracted_data.get(field_name)\<close>.
\<close>

theorem judge_fallback_counterexample:
  "judge_backend_failed down_backend (JObj flags_extracted) flags_schema
   \<and> map_of flags_extracted ''available'' = Some (JBool False) \<and> spec_non_empty (JBool False)
   \<and> map_of flags_extracted ''years'' = Some (JInt 0) \<and> spec_non_empty (JInt 0)
   \<and> judge_completeness down_backend (JObj flags_extracted) flags_schema =
       Inr (JObj [(''available'', JInt 0), (''years'', JInt 0)], JBool False,
            JStr ''Unable to evaluate completeness. Please continue the conversation.'')
   \<and> JInt 0 \<noteq> JInt 5"
  by (simp add: judge_backend_failed_def judge_completeness_def down_backend_def judge_fallback_def
                fallback_scores_def flags_schema_def flags_extracted_def dict_get_def)

text \<open>
  Claim C5, amended: for every schema and every extracted dict, when the backend fails
  for the judge, \<open>judge_completeness\<close> returns a dict of scores over exactly the
  schema's fields, \<open>False\<close> for \<open>overall_complete\<close>, and the fixed suggestion. A field
  scores 5 when the truth value of its extracted value is true and 0 otherwise: a
  non-empty string scores 5, and a field that is missing, null, \<open>false\<close>, 0 or the
  empty string scores 0. So \<open>overall_complete\<close> is never true through the fallback,
  whatever was extracted.
\<close>

theorem judge_fallback_never_complete:
  "judge_backend_failed be (JObj extracted) sch \<Longrightarrow>
   (\<exists>scores.
      judge_completeness be (JObj extracted) sch =
        Inr (JObj scores, JBool False,
             JStr ''Unable to evaluate completeness. Please continue the conversation.'')
      \<and> fst ` set scores = fst ` set sch
      \<and> (\<forall>f \<in> fst ` set sch.
            dict_get scores f = JInt (if truthy (dict_get extracted f) then 5 else 0))
      \<and> (\<forall>f \<in> fst ` set sch.
            (map_of extracted f = None \<or> map_of extracted f = Some JNull \<longrightarrow> dict_get scores f = JInt 0)
          \<and> (\<forall>t. t \<noteq> [] \<and> map_of extracted f = Some (JStr t) \<longrightarrow> dict_get scores f = JInt 5)
          \<and> (map_of extracted f = Some (JBool False) \<or> map_of extracted f = Some (JInt 0)
               \<or> map_of extracted f = Some (JStr []) \<longrightarrow> dict_get scores f = JInt 0)))"
  apply (rule exI [of _ "fallback_scores extracted sch"])
  apply (simp add: judge_failed judge_fallback_def fallback_scores_keys fallback_scores_get)
  apply (auto simp: dict_get_def split: option.splits)
  done

theorem judge_fallback_never_complete_witness:
  "judge_backend_failed down_backend (JObj [(''name'', JStr ''John Smith'')]) demo_schema
   \<and> judge_completeness down_backend (JObj [(''name'', JStr ''John Smith'')]) demo_schema =
       Inr (JObj [(''name'', JInt 5)], JBool False,
            JStr ''Unable to evaluate completeness. Please continue the conversation.'')"
proof -
  have f: "judge_backend_failed down_backend (JObj [(''name'', JStr ''John Smith'')]) demo_schema"
    by (simp add: judge_backend_failed_def down_backend_def)
  from judge_fallback_never_complete [OF f] obtain scores where
    "judge_completeness down_backend (JObj [(''name'', JStr ''John Smith'')]) demo_schema =
        Inr (JObj scores, JBool False,
             JStr ''Unable to evaluate completeness. Please continue the conversation.'')"
    by blast
  moreover have "judge_completeness down_backend (JObj [(''name'', JStr ''John Smith'')]) demo_schema =
       Inr (JObj [(''name'', JInt 5)], JBool False,
            JStr ''Unable to evaluate completeness. Please continue the conversation.'')"
    by (simp add: judge_completeness_def down_backend_def judge_fallback_def fallback_scores_def
                  demo_schema_def dict_get_def)
  ultimately show ?thesis using f by simp
qed

text \<open>
  Claim C6: for every completed session and every incoming text, the handler returns
  the fixed already-completed message with \<open>is_complete\<close> true and the session's
  \<open>session_data\<close>, calls no service and stores the session as it was; so the
  conversation of a completed session is the same after any further chat requests.
\<close>

theorem completed_session_unchanged:
  "is_completed s \<Longrightarrow>
   chat_with_session str_of be sch s message =
     \<lparr>outcome = Inr \<lparr>response = completed_msg, is_complete = True,
                       resp_awaiting_confirmation = False, resp_extracted_data = None,
                       resp_field_scores = None, resp_session_data = session_data s\<rparr>,
      session_after = s, calls = []\<rparr>
   \<and> conversation_history (chats str_of sch s requests) = conversation_history s
   \<and> length (history_of (chats str_of sch s requests)) = length (history_of s)"
  by (simp add: completed_step completed_chats)

theorem completed_session_unchanged_witness:
  "is_completed demo_confirmed
   \<and> chat_with_session demo_str_of down_backend demo_schema demo_confirmed ''hello'' =
       \<lparr>outcome = Inr \<lparr>response = completed_msg, is_complete = True,
                         resp_awaiting_confirmation = False, resp_extracted_data = None,
                         resp_field_scores = None,
                         resp_session_data = session_data demo_confirmed\<rparr>,
        session_after = demo_confirmed, calls = []\<rparr>
   \<and> length (history_of (chats demo_str_of demo_schema demo_confirmed
                           [(down_backend, ''hello''), (demo_backend, ''yes'')]))
       = length (history_of demo_confirmed)"
proof -
  have c: "is_completed demo_confirmed" using demo_confirmed_state by simp
  show ?thesis
    using completed_session_unchanged [OF c, of demo_str_of down_backend demo_schema "''hello''"
        "[(down_backend, ''hello''), (demo_backend, ''yes'')]"] c
    by blast
qed

text \<open>
  Claim C7: on the session \<open>start_interview\<close> creates, the first message calls neither
  the extractor, the judge nor the question generator. The reply is the opening prompt
  when the lower-cased, trimmed message contains a ready phrase and the generic welcome
  otherwise; the stored conversation is the user turn followed by that one assistant
  turn, of length 2, and \<open>is_complete\<close> is false.
\<close>

theorem first_message_is_welcomed:
  "chat_with_session str_of be sch (new_session tid) message =
     (let msg = (if any_phrase_in ready_phrases (py_strip (py_lower message))
                 then ready_welcome_msg else welcome_msg)
      in \<lparr>outcome = Inr \<lparr>response = msg, is_complete = False,
                          resp_awaiting_confirmation = False, resp_extracted_data = None,
                          resp_field_scores = None, resp_session_data = None\<rparr>,
           session_after = (new_session tid)
             \<lparr>conversation_history := Some [user_turn message, assistant_turn msg]\<rparr>,
           calls = []\<rparr>)
   \<and> length (history_of (session_after (chat_with_session str_of be sch (new_session tid) message))) = 2"
  by (simp add: chat_with_session_def new_session_def history_of_def Let_def)

text \<open>
  Claim C8, at inputs where the code leaves it. For the yes/no kind the code returns
  the fixed hint as feedback also when the answer is accepted: the answer \<open>yes\<close> is
  sufficient and the feedback is not \<open>None\<close>. The same branch compares the lower-cased
  answer without trimming it, so \<open>yes\<close> between two spaces is refused.
\<close>

theorem fallback_evaluation_yes_keeps_reason:
  "fallback_evaluation ''yes'' ''yes/no'' = (True, Some ''Please answer with 'yes' or 'no'.'')
   \<and> py_strip (py_lower '' yes '') = ''yes''
   \<and> fallback_evaluation '' yes '' ''yes/no'' = (False, Some ''Please answer with 'yes' or 'no'.'')"
  by code_simp


text \<open>
  Claim C10: the status of a session reports the progress the specification's formula
  gives, \<open>round(current_question_index / total_questions * 100)\<close> for a schema with
  fields and 0 for a template without any; and the status read right after
  \<open>start_interview\<close> reports progress 0.
\<close>

theorem status_after_start_is_zero:
  "(sessions d sid = Some s \<and> templates d (template_id s) = Some t \<longrightarrow>
     (\<exists>st. get_session_status d sid = Inr st
        \<and> total_questions st = (case questions_schema t of None \<Rightarrow> 0 | Some sch \<Rightarrow> length sch)
        \<and> progress_percentage st = spec_progress (current_question_index s) (total_questions st)
        \<and> (total_questions st = 0 \<longrightarrow> progress_percentage st = 0)))
   \<and> (start_interview d tid = Inr (sid', s', d') \<longrightarrow>
        (\<exists>st. get_session_status d' sid' = Inr st \<and> progress_percentage st = 0))"
proof (intro conjI impI)
  assume "sessions d sid = Some s \<and> templates d (template_id s) = Some t"
  then obtain st where st: "get_session_status d sid = Inr st"
      "total_questions st = (case questions_schema t of None \<Rightarrow> 0 | Some sch \<Rightarrow> length sch)"
      "progress_percentage st = spec_progress (current_question_index s) (total_questions st)"
    using status_progress by blast
  then have "total_questions st = 0 \<longrightarrow> progress_percentage st = 0"
    by (simp add: spec_progress_def)
  then show "\<exists>st. get_session_status d sid = Inr st
        \<and> total_questions st = (case questions_schema t of None \<Rightarrow> 0 | Some sch \<Rightarrow> length sch)
        \<and> progress_percentage st = spec_progress (current_question_index s) (total_questions st)
        \<and> (total_questions st = 0 \<longrightarrow> progress_percentage st = 0)"
    using st by (intro exI [of _ st]) simp
next
  assume "start_interview d tid = Inr (sid', s', d')"
  then show "\<exists>st. get_session_status d' sid' = Inr st \<and> progress_percentage st = 0"
    by (rule start_then_status)
qed

theorem status_after_start_is_zero_witness:
  "start_interview demo_db 1 = Inr (1, new_session 1, demo_started)
   \<and> sessions demo_started 1 = Some (new_session 1)
   \<and> templates demo_started (template_id (new_session 1)) = Some demo_template
   \<and> (\<exists>st. get_session_status demo_started 1 = Inr st
         \<and> total_questions st = 1 \<and> progress_percentage st = 0)"
proof -
  have a: "start_interview demo_db 1 = Inr (1, new_session 1, demo_started)"
    by (simp add: start_interview_def demo_db_def demo_started_def demo_template_def Let_def)
  have b: "sessions demo_started 1 = Some (new_session 1)"
    by (simp add: demo_started_def)
  have c: "templates demo_started (template_id (new_session 1)) = Some demo_template"
    by (simp add: demo_started_def demo_db_def new_session_def)
  from status_after_start_is_zero [where d = demo_db and tid = 1 and sid' = 1
      and s' = "new_session 1" and d' = demo_started] a
  obtain st0 where z: "get_session_status demo_started 1 = Inr st0" "progress_percentage st0 = 0"
    by blast
  from status_after_start_is_zero [where d = demo_started and sid = 1 and s = "new_session 1"
      and t = demo_template] b c
  obtain st where "get_session_status demo_started 1 = Inr st"
    "total_questions st = (case questions_schema demo_template of None \<Rightarrow> 0 | Some sch \<Rightarrow> length sch)"
    by blast
  then have "get_session_status demo_started 1 = Inr st0 \<and> total_questions st0 = 1"
    using z by (simp add: demo_template_def demo_schema_def)
  then show ?thesis using a b c z by blast
qed

end
